theory Spec2Isabelle
  imports Main "HOL-Library.Multiset" "HOL-Library.Sublist"
begin

section \<open>Python strings\<close>

text \<open>
  A Python \<open>str\<close> is a sequence of Unicode code points, so a string is a list of
  code-point numbers: \<open>len\<close> is \<open>length\<close>, and the Cyrillic letters of the city table
  are single elements. The literals used below are spelled out once, here.
\<close>

type_synonym ustring = "nat list"

definition dot :: nat where "dot = 46"
definition underscore :: nat where "underscore = 95"
definition plus_sign :: nat where "plus_sign = 43"
definition minus_sign :: nat where "minus_sign = 45"

definition str_camera :: ustring where
  \<comment> \<open>\<open>'camera'\<close>\<close>
  "str_camera = [99, 97, 109, 101, 114, 97]"

definition str_fields :: ustring where
  \<comment> \<open>\<open>'bdate,city,photo_100,sex'\<close>\<close>
  "str_fields = [98, 100, 97, 116, 101, 44, 99, 105, 116, 121, 44, 112, 104, 111, 116, 111,
                 95, 49, 48, 48, 44, 115, 101, 120]"

definition is_space :: "nat \<Rightarrow> bool" where
  \<comment> \<open>the code points for which \<open>str.isspace\<close> holds; \<open>str.strip()\<close> removes them\<close>
  "is_space c \<longleftrightarrow>
     (9 \<le> c \<and> c \<le> 13) \<or> (28 \<le> c \<and> c \<le> 32) \<or> c = 133 \<or> c = 160 \<or> c = 5760 \<or>
     (8192 \<le> c \<and> c \<le> 8202) \<or> c = 8232 \<or> c = 8233 \<or> c = 8239 \<or> c = 8287 \<or> c = 12288"

definition strip :: "ustring \<Rightarrow> ustring" where
  "strip s = rev (dropWhile is_space (rev (dropWhile is_space s)))"

definition lower_cp :: "nat \<Rightarrow> nat" where
  \<comment> \<open>\<open>str.lower\<close> on one code point, for Basic Latin (A-Z), Latin-1 (U+00C0..U+00DE without
      the multiplication sign) and Cyrillic (U+0400..U+042F); any other code point is kept\<close>
  "lower_cp c =
     (if 65 \<le> c \<and> c \<le> 90 then c + 32
      else if 192 \<le> c \<and> c \<le> 222 \<and> c \<noteq> 215 then c + 32
      else if 1024 \<le> c \<and> c \<le> 1039 then c + 80
      else if 1040 \<le> c \<and> c \<le> 1071 then c + 32
      else c)"

definition lower :: "ustring \<Rightarrow> ustring" where
  "lower s = map lower_cp s"

definition yo :: nat where "yo = 1105"
definition ye :: nat where "ye = 1077"

definition replace_yo :: "ustring \<Rightarrow> ustring" where
  \<comment> \<open>\<open>str.replace\<close> of the Cyrillic letter U+0451 by U+0435: both patterns are one
      code point long, so the replacement is letter by letter\<close>
  "replace_yo s = map (\<lambda>c. if c = yo then ye else c) s"

primrec split_sep :: "'a \<Rightarrow> 'a list \<Rightarrow> 'a list list" where
  \<comment> \<open>\<open>s.split(sep)\<close> for a separator of one character: every occurrence cuts, empty parts are kept\<close>
  "split_sep sep [] = [[]]"
| "split_sep sep (c # cs) =
     (if c = sep then [] # split_sep sep cs
      else (c # hd (split_sep sep cs)) # tl (split_sep sep cs))"

primrec contains :: "'a list \<Rightarrow> 'a list \<Rightarrow> bool" where
  \<comment> \<open>\<open>sub in s\<close> on strings: \<open>sub\<close> occurs as a contiguous run of \<open>s\<close>\<close>
  "contains [] sub \<longleftrightarrow> sub = []"
| "contains (c # cs) sub \<longleftrightarrow> take (length sub) (c # cs) = sub \<or> contains cs sub"

subsection \<open>\<open>int(str)\<close>\<close>

text \<open>
  \<open>int(s)\<close> in base 10, as CPython 3.11 reads it. The string is first brought to ASCII:
  a character below U+007F stays, any other whitespace character becomes a space, a
  character with the Unicode property \<open>decimal\<close> becomes its ASCII digit, and anything else
  is an error. Leading and trailing ASCII whitespace is then skipped (tab to carriage
  return, and space; not U+001C to U+001F, which \<open>str.strip\<close> would remove), one sign is
  allowed, and the rest is digits with single underscores between them. A literal of more
  than \<open>sys.get_int_max_str_digits()\<close> digits, 4300 by default, is an error as well.
  The decimal digits of Unicode 14.0 come in 66 runs of ten consecutive code points, each
  from zero to nine; \<open>decimal_zeros\<close> lists the code point of every zero.
\<close>

definition decimal_zeros :: "nat list" where
  "decimal_zeros =
     [48, 1632, 1776, 1984, 2406, 2534, 2662, 2790, 2918, 3046, 3174, 3302, 3430, 3558, 3664,
      3792, 3872, 4160, 4240, 6112, 6160, 6470, 6608, 6784, 6800, 6992, 7088, 7232, 7248, 42528,
      43216, 43264, 43472, 43504, 43600, 44016, 65296, 66720, 68912, 69734, 69872, 69942, 70096,
      70384, 70736, 70864, 71248, 71360, 71472, 71904, 72016, 72784, 73040, 73120, 92768, 92864,
      93008, 120782, 120792, 120802, 120812, 120822, 123200, 123632, 125264, 130032]"

definition decimal_of :: "nat \<Rightarrow> nat option" where
  \<comment> \<open>the digit value of a decimal digit character, \<open>None\<close> for any other character\<close>
  "decimal_of c = map_option (\<lambda>z. c - z) (find (\<lambda>z. z \<le> c \<and> c < z + 10) decimal_zeros)"

definition is_int_space :: "nat \<Rightarrow> bool" where
  \<comment> \<open>the whitespace that \<open>int()\<close> skips at both ends\<close>
  "is_int_space c \<longleftrightarrow>
     (9 \<le> c \<and> c \<le> 13) \<or> c = 32 \<or> c = 133 \<or> c = 160 \<or> c = 5760 \<or>
     (8192 \<le> c \<and> c \<le> 8202) \<or> c = 8232 \<or> c = 8233 \<or> c = 8239 \<or> c = 8287 \<or> c = 12288"

definition int_strip :: "ustring \<Rightarrow> ustring" where
  "int_strip s = rev (dropWhile is_int_space (rev (dropWhile is_int_space s)))"

definition max_str_digits :: nat where
  "max_str_digits = 4300"

fun no_double_underscore :: "ustring \<Rightarrow> bool" where
  "no_double_underscore (a # b # cs) \<longleftrightarrow>
     \<not> (a = underscore \<and> b = underscore) \<and> no_double_underscore (b # cs)"
| "no_double_underscore cs \<longleftrightarrow> True"

definition digits_value :: "nat list \<Rightarrow> int" where
  \<comment> \<open>the number with the given decimal digits, most significant first\<close>
  "digits_value ds = foldl (\<lambda>acc d. 10 * acc + int d) 0 ds"

definition int_body :: "ustring \<Rightarrow> int option" where
  \<comment> \<open>an unsigned decimal literal: it starts and ends with a digit, has digits and single
      underscores only, and at most \<open>max_str_digits\<close> digits\<close>
  "int_body cs =
     (let digits = List.map_filter decimal_of cs in
      if cs \<noteq> [] \<and> list_all (\<lambda>c. decimal_of c \<noteq> None \<or> c = underscore) cs \<and>
         decimal_of (hd cs) \<noteq> None \<and> decimal_of (last cs) \<noteq> None \<and>
         no_double_underscore cs \<and> length digits \<le> max_str_digits
      then Some (digits_value digits)
      else None)"

definition py_int :: "ustring \<Rightarrow> int option" where
  \<comment> \<open>\<open>None\<close> stands for \<open>ValueError\<close>\<close>
  "py_int s =
     (case int_strip s of
        [] \<Rightarrow> None
      | c # cs \<Rightarrow>
          if c = minus_sign then map_option uminus (int_body cs)
          else if c = plus_sign then int_body cs
          else int_body (c # cs))"

section \<open>VKService\<close>

subsection \<open>\<open>_calculate_age\<close>\<close>

definition calculate_age :: "int \<Rightarrow> ustring option \<Rightarrow> int option" where
  \<comment> \<open>\<open>current_year\<close> is \<open>time.localtime().tm_year\<close>; \<open>bdate = None\<close> is \<open>user.get('bdate')\<close> of
      a user without the key\<close>
  "calculate_age current_year bdate =
     (case bdate of
        None \<Rightarrow> None
      | Some b \<Rightarrow>
          if b = [] then None
          else
            let date_parts = split_sep dot b in
            if length date_parts < 3 then None
            else
              (case py_int (date_parts ! 2) of
                 None \<Rightarrow> None
               | Some birth_year \<Rightarrow>
                   let age = current_year - birth_year in
                   if 10 \<le> age \<and> age \<le> 100 then Some age else None))"

subsection \<open>Configuration\<close>

text \<open>
  \<open>SEARCH_CONFIG\<close> and \<open>CITIES\<close> come from the configuration module, which the functions
  only read: both are parameters here. \<open>SEARCH_CONFIG\<close> is read with
  \<open>.get(key, default)\<close>, so each key may be absent. \<open>CITIES\<close> is a dictionary from city name
  to city identifier, kept as an association list in the dictionary's iteration order.
\<close>

record search_config =
  cfg_count :: "int option"
  cfg_age_range :: "int option"
  cfg_min_photo_likes :: "int option"
  cfg_max_photos :: "int option"

type_synonym cities = "(ustring \<times> int) list"

definition get_or :: "'a option \<Rightarrow> 'a \<Rightarrow> 'a" where
  \<comment> \<open>\<open>d.get(key, default)\<close>\<close>
  "get_or v d = (case v of None \<Rightarrow> d | Some x \<Rightarrow> x)"

subsection \<open>\<open>_build_search_params\<close>\<close>

text \<open>
  The requester profile is a dictionary read with \<open>.get\<close>: a field is \<open>None\<close> when its key
  is absent (for \<open>age\<close> also when the stored value is \<open>None\<close>). The result dictionary has
  a fixed set of possible keys; a key that is not set is \<open>None\<close>.
\<close>

record user_info =
  ui_sex :: "int option"
  ui_age :: "int option"
  ui_city :: "ustring option"

record search_params =
  sp_count :: int
  sp_fields :: ustring
  sp_has_photo :: int
  sp_sort :: int
  sp_country :: "int option"
  sp_sex :: "int option"
  sp_age_from :: int
  sp_age_to :: int
  sp_city :: "int option"

definition target_sex :: "int \<Rightarrow> int option" where
  "target_sex user_sex = (if user_sex = 1 then Some 2 else if user_sex = 2 then Some 1 else None)"

definition age_band :: "search_config \<Rightarrow> int option \<Rightarrow> int \<times> int" where
  \<comment> \<open>\<open>if user_age:\<close> is false for \<open>None\<close> and for \<open>0\<close>\<close>
  "age_band cfg user_age =
     (case user_age of
        None \<Rightarrow> (18, 35)
      | Some a \<Rightarrow>
          if a \<noteq> 0 then
            let age_range = get_or (cfg_age_range cfg) 5 in
            (max 18 (a - age_range), min 80 (a + age_range))
          else (18, 35))"

fun find_city :: "cities \<Rightarrow> ustring \<Rightarrow> ustring \<Rightarrow> int option" where
  \<comment> \<open>the loop over \<open>CITIES.items()\<close> of the first definition, up to its \<open>break\<close>\<close>
  "find_city [] city_normalized city = None"
| "find_city ((city_name, cid) # rest) city_normalized city =
     (if city_normalized = city_name \<or> city = city_name then Some cid
      else find_city rest city_normalized city)"

definition build_search_params_first :: "search_config \<Rightarrow> cities \<Rightarrow> user_info \<Rightarrow> search_params" where
  \<comment> \<open>the first definition in the class body (with \<open>country\<close> and the city normalisation)\<close>
  "build_search_params_first cfg CITIES ui =
     (let city = strip (lower (get_or (ui_city ui) []));
          city_normalized = replace_yo city;
          city_id = find_city CITIES city_normalized city
      in \<lparr> sp_count = get_or (cfg_count cfg) 100,
           sp_fields = str_fields,
           sp_has_photo = 1,
           sp_sort = 0,
           sp_country = Some 1,
           sp_sex = target_sex (get_or (ui_sex ui) 0),
           sp_age_from = fst (age_band cfg (ui_age ui)),
           sp_age_to = snd (age_band cfg (ui_age ui)),
           sp_city = (case city_id of None \<Rightarrow> None
                      | Some cid \<Rightarrow> if cid \<noteq> 0 then Some cid else None) \<rparr>)"

definition build_search_params :: "search_config \<Rightarrow> cities \<Rightarrow> user_info \<Rightarrow> search_params" where
  \<comment> \<open>the second definition in the class body: a later \<open>def\<close> of the same name rebinds the
      attribute, so this is the method that \<open>VKService._build_search_params\<close> names\<close>
  "build_search_params cfg CITIES ui =
     (let city = lower (get_or (ui_city ui) [])
      in \<lparr> sp_count = get_or (cfg_count cfg) 100,
           sp_fields = str_fields,
           sp_has_photo = 1,
           sp_sort = 0,
           sp_country = None,
           sp_sex = target_sex (get_or (ui_sex ui) 0),
           sp_age_from = fst (age_band cfg (ui_age ui)),
           sp_age_to = snd (age_band cfg (ui_age ui)),
           sp_city = (if city \<noteq> [] then map_of CITIES city else None) \<rparr>)"

subsection \<open>The external capability\<close>

text \<open>
  \<open>users.search\<close> and \<open>photos.get\<close> are calls to the social network. A call either
  raises \<open>vk_api.ApiError\<close> with a code or returns a response; \<open>Response None\<close> is a
  response that is empty or has no \<open>'items'\<close> key.
\<close>

datatype 'a api_result = ApiError int | Response "'a list option"

subsection \<open>\<open>search_people\<close>\<close>

text \<open>
  A raw search result is a user object of the network: \<open>id\<close> is always there, every other
  key is read with \<open>.get\<close>. \<open>city\<close> is an object with an optional \<open>title\<close>: \<open>None\<close> is a
  missing or empty object, \<open>Some None\<close> an object without title. \<open>deactivated\<close> is the
  network's marker string (\<open>'deleted'\<close> or \<open>'banned'\<close>).
\<close>

record raw_user =
  ru_id :: int
  ru_first_name :: "ustring option"
  ru_last_name :: "ustring option"
  ru_bdate :: "ustring option"
  ru_city :: "ustring option option"
  ru_sex :: "int option"
  ru_deactivated :: "ustring option"
  ru_photo_100 :: "ustring option"

record candidate =
  c_id :: int
  c_first_name :: ustring
  c_last_name :: ustring
  c_age :: "int option"
  c_city :: ustring
  c_sex :: int

definition is_deactivated :: "raw_user \<Rightarrow> bool" where
  \<comment> \<open>\<open>if user.get('deactivated')\<close>: the key is there and its string is not empty\<close>
  "is_deactivated u = (case ru_deactivated u of None \<Rightarrow> False | Some d \<Rightarrow> d \<noteq> [])"

definition lacks_photo :: "raw_user \<Rightarrow> bool" where
  \<comment> \<open>\<open>not user.get('photo_100') or 'camera' in user.get('photo_100', '')\<close>\<close>
  "lacks_photo u =
     (case ru_photo_100 u of None \<Rightarrow> True | Some p \<Rightarrow> p = [] \<or> contains p str_camera)"

definition city_title :: "ustring option option \<Rightarrow> ustring" where
  \<comment> \<open>\<open>user.get('city', {}).get('title', '') if user.get('city') else ''\<close>\<close>
  "city_title c = (case c of None \<Rightarrow> [] | Some t \<Rightarrow> get_or t [])"

definition to_candidate :: "int \<Rightarrow> raw_user \<Rightarrow> candidate" where
  "to_candidate current_year u =
     \<lparr> c_id = ru_id u,
       c_first_name = get_or (ru_first_name u) [],
       c_last_name = get_or (ru_last_name u) [],
       c_age = calculate_age current_year (ru_bdate u),
       c_city = city_title (ru_city u),
       c_sex = get_or (ru_sex u) 0 \<rparr>"

primrec filter_candidates :: "int \<Rightarrow> raw_user list \<Rightarrow> candidate list" where
  \<comment> \<open>the loop over \<open>response['items']\<close> with its two \<open>continue\<close>s\<close>
  "filter_candidates current_year [] = []"
| "filter_candidates current_year (u # us) =
     (if is_deactivated u then filter_candidates current_year us
      else if lacks_photo u then filter_candidates current_year us
      else to_candidate current_year u # filter_candidates current_year us)"

text \<open>
  \<open>random.shuffle\<close> walks \<open>i\<close> from the last index down to 1 and swaps position \<open>i\<close> with a
  random position \<open>j \<le> i\<close>. The random source is a parameter: \<open>rnd i\<close> is the number drawn
  at index \<open>i\<close>, reduced to the range \<open>0..i\<close>.
\<close>

fun shuffle_from :: "(nat \<Rightarrow> nat) \<Rightarrow> nat \<Rightarrow> 'a list \<Rightarrow> 'a list" where
  "shuffle_from rnd 0 xs = xs"
| "shuffle_from rnd (Suc i) xs =
     (let j = rnd (Suc i) mod Suc (Suc i)
      in shuffle_from rnd i (xs[Suc i := xs ! j, j := xs ! Suc i]))"

definition shuffle :: "(nat \<Rightarrow> nat) \<Rightarrow> 'a list \<Rightarrow> 'a list" where
  "shuffle rnd xs = shuffle_from rnd (length xs - 1) xs"

definition search_people ::
  "(nat \<Rightarrow> nat) \<Rightarrow> int \<Rightarrow> search_config \<Rightarrow> cities \<Rightarrow> (search_params \<Rightarrow> raw_user api_result) \<Rightarrow>
   user_info \<Rightarrow> candidate list" where
  \<comment> \<open>\<open>users_search\<close> is the call \<open>self.vk_user.users.search(**search_params)\<close>; both
      \<open>except\<close> branches and the empty response return \<open>[]\<close>\<close>
  "search_people rnd current_year cfg CITIES users_search ui =
     (case users_search (build_search_params cfg CITIES ui) of
        ApiError code \<Rightarrow> []
      | Response None \<Rightarrow> []
      | Response (Some items) \<Rightarrow> take 50 (shuffle rnd (filter_candidates current_year items)))"

subsection \<open>\<open>get_popular_photos\<close>\<close>

text \<open>
  A photo carries \<open>likes\<close> and \<open>comments\<close> objects, each with an optional \<open>count\<close>:
  \<open>None\<close> is a missing object, \<open>Some None\<close> an object without \<open>count\<close>.
\<close>

record raw_photo =
  ph_id :: int
  ph_owner_id :: int
  ph_likes :: "int option option"
  ph_comments :: "int option option"

definition count_of :: "int option option \<Rightarrow> int" where
  \<comment> \<open>\<open>x.get(key, {}).get('count', 0)\<close>\<close>
  "count_of c = (case c of None \<Rightarrow> 0 | Some n \<Rightarrow> get_or n 0)"

definition popularity :: "raw_photo \<Rightarrow> int" where
  "popularity x = count_of (ph_likes x) + count_of (ph_comments x)"

definition slice_to :: "int \<Rightarrow> 'a list \<Rightarrow> 'a list" where
  \<comment> \<open>\<open>xs[:n]\<close>: a negative bound counts from the end\<close>
  "slice_to n xs = (if 0 \<le> n then take (nat n) xs else take (length xs - nat (- n)) xs)"

definition rank_photos :: "search_config \<Rightarrow> raw_photo list \<Rightarrow> raw_photo list" where
  \<comment> \<open>from \<open>photos = response['items']\<close> to the \<open>return\<close>; \<open>list.sort\<close> is stable, also with
      \<open>reverse=True\<close>, which is a stable ascending sort by the negated key\<close>
  "rank_photos cfg items =
     (let photos = sort_key (\<lambda>x. - popularity x) items;
          min_likes = get_or (cfg_min_photo_likes cfg) 1;
          popular_photos = filter (\<lambda>photo. min_likes \<le> count_of (ph_likes photo)) photos;
          popular_photos = (if length popular_photos < 3 \<and> photos \<noteq> [] then photos
                            else popular_photos)
      in slice_to (get_or (cfg_max_photos cfg) 3) popular_photos)"

definition get_popular_photos ::
  "search_config \<Rightarrow> (int \<Rightarrow> raw_photo api_result) \<Rightarrow> int \<Rightarrow> raw_photo list" where
  "get_popular_photos cfg photos_get user_id =
     (case photos_get user_id of
        ApiError code \<Rightarrow> []
      | Response None \<Rightarrow> []
      | Response (Some items) \<Rightarrow> rank_photos cfg items)"

section \<open>Database\<close>

text \<open>
  The store is the content of the tables that the operations below touch: the key column
  of \<open>users\<close>, and the rows of \<open>favorites\<close> and \<open>blacklist\<close> in insertion order (the serial
  \<open>id\<close> column is never read). The connection commits every statement on its own.
  \<open>db_up\<close> says whether the server answers; a statement sent over a dead connection
  raises \<open>psycopg2.OperationalError\<close>. The constraints are those of \<open>create_tables\<close>:
  \<open>BIGINT\<close> and \<open>VARCHAR(100)\<close> columns, \<open>REFERENCES users(user_id)\<close> and
  \<open>UNIQUE(user_id, candidate_id)\<close>. The clock (\<open>CURRENT_TIMESTAMP\<close>) is an argument.

  Before a statement is sent, psycopg2 turns each string argument into a literal in the
  connection's encoding, taken to be UTF-8: a string with a surrogate code point cannot be
  encoded (\<open>UnicodeEncodeError\<close>, a \<open>ValueError\<close>) and a string with a NUL character is
  refused with \<open>ValueError\<close>. Neither is a \<open>psycopg2.Error\<close>, so an operation that takes
  strings can raise; its outcome is \<open>Inl\<close> of the exception or \<open>Inr\<close> of the returned value.
  Integer arguments always pass.
\<close>

datatype py_error = ValueError

record favorite_row =
  fav_user_id :: int
  fav_candidate_id :: int
  fav_first_name :: ustring
  fav_last_name :: ustring
  fav_created_at :: nat

record blacklist_row =
  bl_user_id :: int
  bl_candidate_id :: int
  bl_created_at :: nat

record database =
  db_up :: bool
  db_users :: "int list"
  db_favorites :: "favorite_row list"
  db_blacklist :: "blacklist_row list"

definition in_bigint :: "int \<Rightarrow> bool" where
  "in_bigint x \<longleftrightarrow> - (2 ^ 63) \<le> x \<and> x < 2 ^ 63"

definition varchar :: "nat \<Rightarrow> ustring \<Rightarrow> ustring option" where
  \<comment> \<open>storing into \<open>VARCHAR(n)\<close>: a longer value is an error unless the excess is spaces only,
      which are cut off\<close>
  "varchar n s =
     (if length s \<le> n then Some s
      else if list_all (\<lambda>c. c = 32) (drop n s) then Some (take n s)
      else None)"

definition adaptable :: "ustring \<Rightarrow> bool" where
  \<comment> \<open>psycopg2 can pass the string as a statement argument\<close>
  "adaptable s \<longleftrightarrow> list_all (\<lambda>c. c \<noteq> 0 \<and> \<not> (55296 \<le> c \<and> c \<le> 57343)) s"

definition has_favorite :: "database \<Rightarrow> int \<Rightarrow> int \<Rightarrow> bool" where
  "has_favorite db user_id candidate_id \<longleftrightarrow>
     list_ex (\<lambda>r. fav_user_id r = user_id \<and> fav_candidate_id r = candidate_id) (db_favorites db)"

definition has_blacklisted :: "database \<Rightarrow> int \<Rightarrow> int \<Rightarrow> bool" where
  "has_blacklisted db user_id candidate_id \<longleftrightarrow>
     list_ex (\<lambda>r. bl_user_id r = user_id \<and> bl_candidate_id r = candidate_id) (db_blacklist db)"

definition add_to_favorites ::
  "nat \<Rightarrow> database \<Rightarrow> int \<Rightarrow> int \<Rightarrow> ustring \<Rightarrow> ustring \<Rightarrow> (py_error + bool) \<times> database" where
  \<comment> \<open>a plain \<open>INSERT\<close>. A name that cannot be adapted raises \<open>ValueError\<close> out of the
      method, before anything is sent. Once sent, the foreign key and the uniqueness
      constraint both raise \<open>IntegrityError\<close>, any other failure another \<open>psycopg2.Error\<close>;
      these are caught and return \<open>False\<close>\<close>
  "add_to_favorites now db user_id candidate_id first_name last_name =
     (if \<not> adaptable first_name \<or> \<not> adaptable last_name then (Inl ValueError, db)
      else if \<not> db_up db then (Inr False, db)
      else if \<not> in_bigint user_id \<or> \<not> in_bigint candidate_id then (Inr False, db)
      else
        (case (varchar 100 first_name, varchar 100 last_name) of
           (Some fn, Some ln) \<Rightarrow>
             if user_id \<notin> set (db_users db) then (Inr False, db)
             else if has_favorite db user_id candidate_id then (Inr False, db)
             else (Inr True, db\<lparr> db_favorites := db_favorites db @
                      [\<lparr> fav_user_id = user_id, fav_candidate_id = candidate_id,
                         fav_first_name = fn, fav_last_name = ln, fav_created_at = now \<rparr>] \<rparr>)
         | _ \<Rightarrow> (Inr False, db)))"

definition add_to_blacklist :: "nat \<Rightarrow> database \<Rightarrow> int \<Rightarrow> int \<Rightarrow> bool \<times> database" where
  \<comment> \<open>\<open>INSERT ... ON CONFLICT (user_id, candidate_id) DO NOTHING\<close>: an existing pair is
      skipped without error; the foreign key still raises \<open>IntegrityError\<close>, which is a
      \<open>psycopg2.Error\<close>\<close>
  "add_to_blacklist now db user_id candidate_id =
     (if \<not> db_up db then (False, db)
      else if \<not> in_bigint user_id \<or> \<not> in_bigint candidate_id then (False, db)
      else if has_blacklisted db user_id candidate_id then (True, db)
      else if user_id \<notin> set (db_users db) then (False, db)
      else (True, db\<lparr> db_blacklist := db_blacklist db @
               [\<lparr> bl_user_id = user_id, bl_candidate_id = candidate_id,
                  bl_created_at = now \<rparr>] \<rparr>))"

record favorite_entry =
  fe_candidate_id :: int
  fe_first_name :: ustring
  fe_last_name :: ustring
  fe_created_at :: nat

definition get_favorites :: "database \<Rightarrow> int \<Rightarrow> favorite_entry list" where
  \<comment> \<open>\<open>ORDER BY created_at DESC\<close>; rows of equal time keep their table order\<close>
  "get_favorites db user_id =
     (if \<not> db_up db then []
      else map (\<lambda>r. \<lparr> fe_candidate_id = fav_candidate_id r, fe_first_name = fav_first_name r,
                      fe_last_name = fav_last_name r, fe_created_at = fav_created_at r \<rparr>)
             (sort_key (\<lambda>r. - int (fav_created_at r))
                (filter (\<lambda>r. fav_user_id r = user_id) (db_favorites db))))"

definition get_blacklist :: "database \<Rightarrow> int \<Rightarrow> int list" where
  "get_blacklist db user_id =
     (if \<not> db_up db then []
      else map bl_candidate_id (filter (\<lambda>r. bl_user_id r = user_id) (db_blacklist db)))"

definition blacklist_unique :: "database \<Rightarrow> bool" where
  \<comment> \<open>the constraint \<open>UNIQUE(user_id, candidate_id)\<close> of table \<open>blacklist\<close>, as a property of
      the stored rows\<close>
  "blacklist_unique db \<longleftrightarrow>
     distinct (map (\<lambda>r. (bl_user_id r, bl_candidate_id r)) (db_blacklist db))"

section \<open>Sample data\<close>

text \<open>
  The concrete inputs of the examples: the configuration with every key absent (so all
  defaults apply), a city table with two entries, and the decimal rendering of a number.
\<close>

definition default_config :: search_config where
  "default_config =
     \<lparr> cfg_count = None, cfg_age_range = None, cfg_min_photo_likes = None, cfg_max_photos = None \<rparr>"

definition str_moskva :: ustring where
  \<comment> \<open>the city name Moskva in Cyrillic lower case, U+043C U+043E U+0441 U+043A U+0432 U+0430\<close>
  "str_moskva = [1084, 1086, 1089, 1082, 1074, 1072]"

definition str_orel :: ustring where
  \<comment> \<open>the city name Orel in Cyrillic lower case, spelled with U+0435\<close>
  "str_orel = [1086, 1088, 1077, 1083]"

definition sample_cities :: cities where
  "sample_cities = [(str_moskva, 1), (str_orel, 2)]"

definition no_random :: "nat \<Rightarrow> nat" where
  \<comment> \<open>a random source that draws 0 every time\<close>
  "no_random i = 0"

definition str_photo_url :: ustring where
  \<comment> \<open>\<open>'https://example.com/photo.jpg'\<close>\<close>
  "str_photo_url = [104, 116, 116, 112, 115, 58, 47, 47, 101, 120, 97, 109, 112, 108, 101, 46,
                    99, 111, 109, 47, 112, 104, 111, 116, 111, 46, 106, 112, 103]"

definition str_camera_url :: ustring where
  \<comment> \<open>\<open>'https://vk.com/images/camera_100.png'\<close>\<close>
  "str_camera_url = [104, 116, 116, 112, 115, 58, 47, 47, 118, 107, 46, 99, 111, 109, 47, 105,
                     109, 97, 103, 101, 115, 47, 99, 97, 109, 101, 114, 97, 95, 49, 48, 48, 46,
                     112, 110, 103]"

definition str_deleted :: ustring where
  \<comment> \<open>\<open>'deleted'\<close>\<close>
  "str_deleted = [100, 101, 108, 101, 116, 101, 100]"

definition sample_user :: raw_user where
  \<comment> \<open>the search result of \<open>test_search_people\<close>: id 67890, born 15.5.1995, with a photo\<close>
  "sample_user =
     \<lparr> ru_id = 67890,
       ru_first_name = Some [1040, 1085, 1085, 1072],
       ru_last_name = Some [1048, 1074, 1072, 1085, 1086, 1074, 1072],
       ru_bdate = Some [49, 53, 46, 53, 46, 49, 57, 57, 53],
       ru_city = Some (Some [1052, 1086, 1089, 1082, 1074, 1072]),
       ru_sex = Some 1,
       ru_deactivated = None,
       ru_photo_100 = Some str_photo_url \<rparr>"

definition sample_search :: "search_params \<Rightarrow> raw_user api_result" where
  \<comment> \<open>a search capability that answers every query with the one sample user\<close>
  "sample_search params = Response (Some [sample_user])"

definition sample_requester :: user_info where
  \<comment> \<open>the requester of the tests: sex 1, age 25, city Moskva (capitalised)\<close>
  "sample_requester =
     \<lparr> ui_sex = Some 1, ui_age = Some 25,
       ui_city = Some [1052, 1086, 1089, 1082, 1074, 1072] \<rparr>"

definition sample_db :: database where
  \<comment> \<open>a running store with the one registered user 12345 and no interaction rows\<close>
  "sample_db = \<lparr> db_up = True, db_users = [12345], db_favorites = [], db_blacklist = [] \<rparr>"

definition empty_db :: database where
  \<comment> \<open>a running store just after \<open>create_tables\<close>: no user is registered\<close>
  "empty_db = \<lparr> db_up = True, db_users = [], db_favorites = [], db_blacklist = [] \<rparr>"

definition plain_photo :: "int \<Rightarrow> raw_photo" where
  \<comment> \<open>a photo without likes and comments\<close>
  "plain_photo i = \<lparr> ph_id = i, ph_owner_id = 67890, ph_likes = None, ph_comments = None \<rparr>"

definition liked_photo :: "int \<Rightarrow> int \<Rightarrow> int \<Rightarrow> raw_photo" where
  "liked_photo i likes comments =
     \<lparr> ph_id = i, ph_owner_id = 67890, ph_likes = Some (Some likes),
       ph_comments = Some (Some comments) \<rparr>"

fun dec :: "nat \<Rightarrow> ustring" where
  \<comment> \<open>the decimal digits of a number, without leading zeros\<close>
  "dec n = (if n < 10 then [48 + n] else dec (n div 10) @ [48 + n mod 10])"

declare dec.simps [simp del]

section \<open>Properties of \<open>_calculate_age\<close>\<close>

subsection \<open>Splitting and parsing\<close>

lemma split_sep_not_Nil: "split_sep sep cs \<noteq> []"
  by (induction cs) auto

lemma split_sep_no_sep: "sep \<notin> set a \<Longrightarrow> split_sep sep a = [a]"
  by (induction a) auto

lemma split_sep_append: "sep \<notin> set a \<Longrightarrow> split_sep sep (a @ sep # rest) = a # split_sep sep rest"
  by (induction a) auto

lemma split_sep_three:
  "sep \<notin> set d \<Longrightarrow> sep \<notin> set m \<Longrightarrow> sep \<notin> set y \<Longrightarrow>
   split_sep sep (d @ [sep] @ m @ [sep] @ y) = [d, m, y]"
  by (simp add: split_sep_append split_sep_no_sep)

lemma decimal_of_ascii: "48 \<le> c \<Longrightarrow> c \<le> 57 \<Longrightarrow> decimal_of c = Some (c - 48)"
  by (simp add: decimal_of_def decimal_zeros_def)

lemma dec_ascii: "list_all (\<lambda>c. 48 \<le> c \<and> c \<le> 57) (dec n)"
proof (induction n rule: dec.induct)
  case (1 n)
  show ?case
  proof (cases "n < 10")
    case True
    then show ?thesis by (subst dec.simps) simp
  next
    case False
    have "n mod 10 < 10" by simp
    then have "48 + n mod 10 \<le> 57" by linarith
    with 1 False show ?thesis by (subst dec.simps) simp
  qed
qed

lemma dec_not_Nil: "dec n \<noteq> []"
  by (subst dec.simps) simp

lemma map_filter_ascii:
  "list_all (\<lambda>c. 48 \<le> c \<and> c \<le> 57) cs \<Longrightarrow> List.map_filter decimal_of cs = map (\<lambda>c. c - 48) cs"
  by (induction cs) (simp_all add: List.map_filter_simps decimal_of_ascii)

lemma digits_value_snoc: "digits_value (ds @ [d]) = 10 * digits_value ds + int d"
  by (simp add: digits_value_def)

lemma digits_value_dec: "digits_value (map (\<lambda>c. c - 48) (dec n)) = int n"
proof (induction n rule: dec.induct)
  case (1 n)
  show ?case
  proof (cases "n < 10")
    case True
    then show ?thesis by (subst dec.simps) (simp add: digits_value_def)
  next
    case False
    with 1 have "digits_value (map (\<lambda>c. c - 48) (dec (n div 10))) = int (n div 10)" by simp
    with False show ?thesis
      by (subst dec.simps) (simp add: digits_value_snoc zdiv_int zmod_int)
  qed
qed

lemma length_dec_le: "0 < k \<Longrightarrow> n < 10 ^ k \<Longrightarrow> length (dec n) \<le> k"
proof (induction k arbitrary: n)
  case 0
  then show ?case by simp
next
  case (Suc k)
  show ?case
  proof (cases "n < 10")
    case True
    then show ?thesis by (subst dec.simps) simp
  next
    case False
    with Suc.prems have k: "0 < k" by (cases k) auto
    from Suc.prems have "n div 10 < 10 ^ k"
      by (simp add: less_mult_imp_div_less mult.commute)
    with Suc.IH k have "length (dec (n div 10)) \<le> k" by simp
    with False show ?thesis by (subst dec.simps) simp
  qed
qed

lemma ascii_not_int_space: "48 \<le> c \<Longrightarrow> c \<le> 57 \<Longrightarrow> \<not> is_int_space c"
  by (auto simp: is_int_space_def)

lemma int_strip_ascii:
  assumes "list_all (\<lambda>c. 48 \<le> c \<and> c \<le> 57) ds"
  shows "int_strip ds = ds"
proof (cases ds)
  case Nil
  then show ?thesis by (simp add: int_strip_def)
next
  case (Cons c cs)
  with assms have h: "\<not> is_int_space (hd ds)" "\<not> is_int_space (last ds)" "ds \<noteq> []"
    by (auto simp: list_all_iff ascii_not_int_space)
  then have "dropWhile is_int_space ds = ds" by (cases ds) auto
  moreover from h have "dropWhile is_int_space (rev ds) = rev ds"
    by (cases "rev ds") (auto simp: last_rev hd_rev)
  ultimately show ?thesis by (simp add: int_strip_def)
qed

lemma no_double_underscore_ascii:
  "list_all (\<lambda>c. 48 \<le> c \<and> c \<le> 57) ds \<Longrightarrow> no_double_underscore ds"
  by (induction ds rule: no_double_underscore.induct) (auto simp: underscore_def)

lemma int_body_ascii:
  assumes "list_all (\<lambda>c. 48 \<le> c \<and> c \<le> 57) ds" "ds \<noteq> []"
  shows "int_body ds =
     (if length ds \<le> max_str_digits then Some (digits_value (map (\<lambda>c. c - 48) ds)) else None)"
proof -
  from assms have "decimal_of (hd ds) \<noteq> None" "decimal_of (last ds) \<noteq> None"
    by (auto simp: list_all_iff decimal_of_ascii)
  moreover from assms have "list_all (\<lambda>c. decimal_of c \<noteq> None \<or> c = underscore) ds"
    by (auto simp: list_all_iff decimal_of_ascii)
  ultimately show ?thesis
    using assms by (simp add: int_body_def Let_def no_double_underscore_ascii map_filter_ascii)
qed

lemma py_int_ascii:
  assumes "list_all (\<lambda>c. 48 \<le> c \<and> c \<le> 57) ds" "ds \<noteq> []"
  shows "py_int ds =
     (if length ds \<le> max_str_digits then Some (digits_value (map (\<lambda>c. c - 48) ds)) else None)"
proof -
  from assms obtain c cs where ds: "ds = c # cs" by (cases ds) auto
  with assms have "48 \<le> c" by simp
  then have "c \<noteq> minus_sign" "c \<noteq> plus_sign"
    by (auto simp: minus_sign_def plus_sign_def)
  with ds show ?thesis
    using int_strip_ascii [OF assms(1)] int_body_ascii [OF assms]
    by (simp add: py_int_def)
qed

lemma py_int_dec:
  "py_int (dec n) = (if length (dec n) \<le> max_str_digits then Some (int n) else None)"
  by (simp add: py_int_ascii dec_ascii dec_not_Nil digits_value_dec)

lemma dot_notin_dec: "dot \<notin> set (dec n)"
  using dec_ascii [of n] by (auto simp: list_all_iff dot_def)

text \<open>The equations that evaluate \<open>int()\<close> on a given string.\<close>

lemmas int_eval = py_int_def int_strip_def is_int_space_def int_body_def Let_def
  List.map_filter_simps decimal_of_def decimal_zeros_def digits_value_def underscore_def
  minus_sign_def plus_sign_def max_str_digits_def

text \<open>
  Claim C3. For a birth date \<open>day.month.year\<close> whose year part \<open>int()\<close> reads as the
  integer \<open>Y\<close>, \<open>_calculate_age\<close> returns \<open>current_year - Y\<close> when that difference lies
  between 10 and 100 inclusive, and \<open>None\<close> otherwise; so it does for any three decimal
  numbers joined by dots, in any current year of at most 4300 digits. It returns \<open>None\<close>
  for a missing date, for the empty string, for a string with fewer than three
  dot-separated parts, and when \<open>int()\<close> rejects the third part.
\<close>

theorem calculate_age_spec:
  "(dot \<notin> set d \<and> dot \<notin> set m \<and> dot \<notin> set y \<and> py_int y = Some Y \<longrightarrow>
      calculate_age cy (Some (d @ [dot] @ m @ [dot] @ y)) =
        (if 10 \<le> cy - Y \<and> cy - Y \<le> 100 then Some (cy - Y) else None)) \<and>
   (cy < 10 ^ max_str_digits \<longrightarrow>
      calculate_age cy (Some (dec dd @ [dot] @ dec mm @ [dot] @ dec yy)) =
        (if 10 \<le> cy - int yy \<and> cy - int yy \<le> 100 then Some (cy - int yy) else None)) \<and>
   calculate_age cy None = None \<and>
   calculate_age cy (Some []) = None \<and>
   (length (split_sep dot s) < 3 \<longrightarrow> calculate_age cy (Some s) = None) \<and>
   (3 \<le> length (split_sep dot s) \<and> py_int (split_sep dot s ! 2) = None \<longrightarrow>
      calculate_age cy (Some s) = None)"
proof -
  have general: "calculate_age cy (Some (d @ [dot] @ m @ [dot] @ y)) =
        (if 10 \<le> cy - Y \<and> cy - Y \<le> 100 then Some (cy - Y) else None)"
    if "dot \<notin> set d" "dot \<notin> set m" "dot \<notin> set y" "py_int y = Some Y" for d m y Y
    using that split_sep_three [of dot d m y]
    by (simp add: calculate_age_def Let_def)
  have short: "calculate_age cy (Some s) = None" if "length (split_sep dot s) < 3" for s
    using that by (simp add: calculate_age_def Let_def)
  have bad_year: "calculate_age cy (Some s) = None"
    if "3 \<le> length (split_sep dot s)" "py_int (split_sep dot s ! 2) = None" for s
    using that by (simp add: calculate_age_def Let_def)
  have rendered: "calculate_age cy (Some (dec dd @ [dot] @ dec mm @ [dot] @ dec yy)) =
     (if 10 \<le> cy - int yy \<and> cy - int yy \<le> 100 then Some (cy - int yy) else None)"
    if cy: "cy < 10 ^ max_str_digits"
  proof (cases "length (dec yy) \<le> max_str_digits")
    case True
    then have "py_int (dec yy) = Some (int yy)" by (simp add: py_int_dec)
    then show ?thesis by (intro general) (simp_all add: dot_notin_dec)
  next
    case False
    then have none: "py_int (dec yy) = None" by (simp add: py_int_dec)
    have parts: "split_sep dot (dec dd @ [dot] @ dec mm @ [dot] @ dec yy) = [dec dd, dec mm, dec yy]"
      by (rule split_sep_three) (simp_all add: dot_notin_dec)
    have left: "calculate_age cy (Some (dec dd @ [dot] @ dec mm @ [dot] @ dec yy)) = None"
    proof (rule bad_year)
      show "3 \<le> length (split_sep dot (dec dd @ [dot] @ dec mm @ [dot] @ dec yy))"
        using parts by simp
      show "py_int (split_sep dot (dec dd @ [dot] @ dec mm @ [dot] @ dec yy) ! 2) = None"
        using parts none by simp
    qed
    have pos: "0 < max_str_digits"
      by (simp add: max_str_digits_def)
    have "\<not> yy < 10 ^ max_str_digits"
      using False length_dec_le [OF pos, of yy] by blast
    then have "(10::nat) ^ max_str_digits \<le> yy" by simp
    then have "int (10 ^ max_str_digits) \<le> int yy" by (simp only: of_nat_le_iff)
    then have "(10::int) ^ max_str_digits \<le> int yy" by simp
    with cy have "cy - int yy < 10" by linarith
    with left show ?thesis by simp
  qed
  have none: "calculate_age cy None = None" "calculate_age cy (Some []) = None"
    by (simp_all add: calculate_age_def)
  from general rendered short bad_year none show ?thesis by blast
qed

theorem calculate_age_spec_witness:
  "dot \<notin> set [49, 53] \<and> dot \<notin> set [53] \<and> dot \<notin> set [49, 57, 57, 53] \<and>
   py_int [49, 57, 57, 53] = Some 1995 \<and>
   calculate_age 2026 (Some [49, 53, 46, 53, 46, 49, 57, 57, 53]) = Some 31 \<and>
   (2026 :: int) < 10 ^ max_str_digits \<and>
   calculate_age 2026 (Some (dec 15 @ [dot] @ dec 5 @ [dot] @ dec 1995)) = Some 31 \<and>
   length (split_sep dot [49, 46, 49]) < 3 \<and>
   calculate_age 2026 (Some [49, 46, 49]) = None \<and>
   3 \<le> length (split_sep dot [49, 46, 49, 46, 120]) \<and>
   py_int (split_sep dot [49, 46, 49, 46, 120] ! 2) = None \<and>
   calculate_age 2026 (Some [49, 46, 49, 46, 120]) = None"
proof -
  have h1: "dot \<notin> set [49, 53]" "dot \<notin> set [53]" "dot \<notin> set [49, 57, 57, 53]"
    by (simp_all add: dot_def)
  have h2: "py_int [49, 57, 57, 53] = Some 1995"
    by (simp add: int_eval)
  have h3: "length (split_sep dot [49, 46, 49]) < 3"
    by (simp add: dot_def)
  have h4: "3 \<le> length (split_sep dot [49, 46, 49, 46, 120])"
    by (simp add: dot_def)
  have h5: "py_int (split_sep dot [49, 46, 49, 46, 120] ! 2) = None"
    by (simp add: int_eval dot_def)
  have "(10::int) ^ 4 \<le> 10 ^ max_str_digits"
    by (rule power_increasing) (simp_all add: max_str_digits_def)
  then have h6: "(2026 :: int) < 10 ^ max_str_digits"
    by simp
  from h1 h2 h3 h4 h5 h6
    calculate_age_spec [of "[49, 53]" "[53]" "[49, 57, 57, 53]" 1995 2026 15 5 1995 "[49, 46, 49]"]
    calculate_age_spec [of "[]" "[]" "[]" 0 2026 0 0 0 "[49, 46, 49, 46, 120]"]
  show ?thesis by (simp add: dot_def)
qed

text \<open>
  Two year parts on which \<open>int()\<close> and \<open>str.strip\<close> differ: a year in Arabic-Indic digits is
  read (the age is 31 in 2026), and a year preceded by U+001F is rejected.
\<close>

lemma calculate_age_unicode_examples:
  "calculate_age 2026 (Some [49, 46, 49, 46, 1633, 1641, 1641, 1637]) = Some 31 \<and>
   calculate_age 2026 (Some [49, 46, 49, 46, 31, 49, 57, 57, 53]) = None"
  by (simp add: calculate_age_def int_eval dot_def)

section \<open>Properties of \<open>_build_search_params\<close>\<close>

lemma age_band_lower: "18 \<le> fst (age_band cfg a)"
  by (cases a) (simp_all add: age_band_def Let_def)

lemma age_band_upper: "snd (age_band cfg a) \<le> 80"
  by (cases a) (simp_all add: age_band_def Let_def)


text \<open>
  Claim C2, as amended. In the parameters built for any requester, \<open>age_from\<close> is at least 18
  and \<open>age_to\<close> at most 80. The other two bounds hold under a condition on the age:
  \<open>age_from \<le> 80\<close> when \<open>age - age_range \<le> 80\<close>, and \<open>18 \<le> age_to\<close> when
  \<open>18 \<le> age + age_range\<close>. When the age is unknown (absent, \<open>None\<close> or 0) the band is
  exactly 18 to 35.
\<close>

theorem age_band_bounds:
  "18 \<le> sp_age_from (build_search_params cfg CITIES ui) \<and>
   sp_age_to (build_search_params cfg CITIES ui) \<le> 80 \<and>
   (ui_age ui = Some a \<and> a \<noteq> 0 \<and> a - get_or (cfg_age_range cfg) 5 \<le> 80 \<longrightarrow>
      sp_age_from (build_search_params cfg CITIES ui) \<le> 80) \<and>
   (ui_age ui = Some a \<and> a \<noteq> 0 \<and> 18 \<le> a + get_or (cfg_age_range cfg) 5 \<longrightarrow>
      18 \<le> sp_age_to (build_search_params cfg CITIES ui)) \<and>
   (ui_age ui = None \<or> ui_age ui = Some 0 \<longrightarrow>
      sp_age_from (build_search_params cfg CITIES ui) = 18 \<and>
      sp_age_to (build_search_params cfg CITIES ui) = 35)"
  by (auto simp: build_search_params_def Let_def age_band_lower age_band_upper age_band_def
      split: option.splits)

theorem age_band_bounds_witness:
  "sp_age_from (build_search_params default_config sample_cities
      \<lparr> ui_sex = Some 1, ui_age = Some 25, ui_city = Some str_moskva \<rparr>) = 20 \<and>
   sp_age_to (build_search_params default_config sample_cities
      \<lparr> ui_sex = Some 1, ui_age = Some 25, ui_city = Some str_moskva \<rparr>) = 30 \<and>
   sp_age_from (build_search_params default_config sample_cities
      \<lparr> ui_sex = Some 1, ui_age = None, ui_city = Some str_moskva \<rparr>) = 18 \<and>
   sp_age_to (build_search_params default_config sample_cities
      \<lparr> ui_sex = Some 1, ui_age = None, ui_city = Some str_moskva \<rparr>) = 35"
  using age_band_bounds [of default_config sample_cities
      "\<lparr> ui_sex = Some 1, ui_age = Some 25, ui_city = Some str_moskva \<rparr>" 25]
    age_band_bounds [of default_config sample_cities
      "\<lparr> ui_sex = Some 1, ui_age = None, ui_city = Some str_moskva \<rparr>" 0]
  by (simp add: build_search_params_def age_band_def default_config_def get_or_def Let_def)

text \<open>
  The band of claim C2 as first stated, within 18 to 80 at both ends, fails for a requester
  aged 95 (the lower end is 90) and for one aged 10 (the upper end is 15); both ages are
  results of \<open>_calculate_age\<close>.
\<close>

theorem age_band_counterexample:
  "sp_age_from (build_search_params default_config sample_cities
      \<lparr> ui_sex = Some 1, ui_age = Some 95, ui_city = Some str_moskva \<rparr>) = 90 \<and>
   \<not> (90::int) \<le> 80 \<and>
   sp_age_to (build_search_params default_config sample_cities
      \<lparr> ui_sex = Some 1, ui_age = Some 10, ui_city = Some str_moskva \<rparr>) = 15 \<and>
   \<not> (18::int) \<le> 15"
  by (simp add: build_search_params_def age_band_def default_config_def get_or_def Let_def)

subsection \<open>The city lookup\<close>

lemma find_city_same: "find_city CITIES c c = map_of CITIES c"
  by (induction CITIES) auto

lemma map_of_nonzero:
  "\<forall>(name, cid) \<in> set CITIES. cid \<noteq> 0 \<Longrightarrow> map_of CITIES c = Some cid \<Longrightarrow> cid \<noteq> 0"
  by (auto dest: map_of_SomeD)

lemma map_of_empty_name:
  "[] \<notin> fst ` set CITIES \<Longrightarrow> map_of CITIES [] = None"
  by (simp add: map_of_eq_None_iff)

text \<open>
  Claim C1. The claim asks the bound \<open>_build_search_params\<close> to trim the city and to fold
  U+0451 to U+0435 before the lookup. The bound method is the second definition, which only
  lowercases: with the table entry for Moskva, the city \<open>'Moskva '\<close> (Cyrillic, capitalised,
  with a trailing space) resolves to no \<open>city\<close> key, and so does Orel spelled with U+0451
  against the entry spelled with U+0435. The first definition resolves both.
\<close>

theorem build_search_params_city_unnormalised:
  "sp_city (build_search_params default_config sample_cities
      \<lparr> ui_sex = Some 1, ui_age = Some 25,
        ui_city = Some [1052, 1086, 1089, 1082, 1074, 1072, 32] \<rparr>) = None \<and>
   sp_city (build_search_params_first default_config sample_cities
      \<lparr> ui_sex = Some 1, ui_age = Some 25,
        ui_city = Some [1052, 1086, 1089, 1082, 1074, 1072, 32] \<rparr>) = Some 1 \<and>
   sp_city (build_search_params default_config sample_cities
      \<lparr> ui_sex = Some 1, ui_age = Some 25, ui_city = Some [1054, 1088, 1105, 1083] \<rparr>) = None \<and>
   sp_city (build_search_params_first default_config sample_cities
      \<lparr> ui_sex = Some 1, ui_age = Some 25, ui_city = Some [1054, 1088, 1105, 1083] \<rparr>) = Some 2"
  by (simp add: build_search_params_def build_search_params_first_def sample_cities_def
      str_moskva_def str_orel_def get_or_def lower_def lower_cp_def strip_def is_space_def
      replace_yo_def yo_def ye_def Let_def)

text \<open>
  Claim C10, as amended. The two definitions of \<open>_build_search_params\<close> agree on \<open>count\<close>,
  \<open>fields\<close>, \<open>has_photo\<close>, \<open>sort\<close>, \<open>sex\<close>, \<open>age_from\<close> and \<open>age_to\<close>. The first always
  sets \<open>country = 1\<close>, the second never sets \<open>country\<close>. They agree on \<open>city\<close> when the
  lowercased city has no surrounding whitespace and no U+0451, and the city table has no
  empty name and no identifier 0.
\<close>

theorem build_search_params_agree:
  "sp_count (build_search_params_first cfg CITIES ui) = sp_count (build_search_params cfg CITIES ui) \<and>
   sp_fields (build_search_params_first cfg CITIES ui) = sp_fields (build_search_params cfg CITIES ui) \<and>
   sp_has_photo (build_search_params_first cfg CITIES ui) =
     sp_has_photo (build_search_params cfg CITIES ui) \<and>
   sp_sort (build_search_params_first cfg CITIES ui) = sp_sort (build_search_params cfg CITIES ui) \<and>
   sp_sex (build_search_params_first cfg CITIES ui) = sp_sex (build_search_params cfg CITIES ui) \<and>
   sp_age_from (build_search_params_first cfg CITIES ui) =
     sp_age_from (build_search_params cfg CITIES ui) \<and>
   sp_age_to (build_search_params_first cfg CITIES ui) =
     sp_age_to (build_search_params cfg CITIES ui) \<and>
   sp_country (build_search_params_first cfg CITIES ui) = Some 1 \<and>
   sp_country (build_search_params cfg CITIES ui) = None \<and>
   (strip (lower (get_or (ui_city ui) [])) = lower (get_or (ui_city ui) []) \<and>
    replace_yo (lower (get_or (ui_city ui) [])) = lower (get_or (ui_city ui) []) \<and>
    [] \<notin> fst ` set CITIES \<and> (\<forall>(name, cid) \<in> set CITIES. cid \<noteq> 0) \<longrightarrow>
      sp_city (build_search_params_first cfg CITIES ui) =
        sp_city (build_search_params cfg CITIES ui))"
proof -
  have city: "sp_city (build_search_params_first cfg CITIES ui) =
        sp_city (build_search_params cfg CITIES ui)"
    if s: "strip (lower (get_or (ui_city ui) [])) = lower (get_or (ui_city ui) [])"
      and r: "replace_yo (lower (get_or (ui_city ui) [])) = lower (get_or (ui_city ui) [])"
      and e: "[] \<notin> fst ` set CITIES" and z: "\<forall>(name, cid) \<in> set CITIES. cid \<noteq> 0"
  proof -
    define c where "c = lower (get_or (ui_city ui) [])"
    have first: "sp_city (build_search_params_first cfg CITIES ui) =
        (case map_of CITIES c of None \<Rightarrow> None | Some cid \<Rightarrow> if cid \<noteq> 0 then Some cid else None)"
      using s r by (simp add: build_search_params_first_def Let_def c_def find_city_same)
    have second: "sp_city (build_search_params cfg CITIES ui) =
        (if c \<noteq> [] then map_of CITIES c else None)"
      by (simp add: build_search_params_def Let_def c_def)
    show ?thesis
    proof (cases "map_of CITIES c")
      case None
      with first second show ?thesis by simp
    next
      case (Some cid)
      with z have "cid \<noteq> 0" by (rule map_of_nonzero)
      moreover from Some e have "c \<noteq> []" using map_of_empty_name [of CITIES] by auto
      ultimately show ?thesis using first second Some by simp
    qed
  qed
  have rest: "sp_count (build_search_params_first cfg CITIES ui) = sp_count (build_search_params cfg CITIES ui)"
    "sp_fields (build_search_params_first cfg CITIES ui) = sp_fields (build_search_params cfg CITIES ui)"
    "sp_has_photo (build_search_params_first cfg CITIES ui) = sp_has_photo (build_search_params cfg CITIES ui)"
    "sp_sort (build_search_params_first cfg CITIES ui) = sp_sort (build_search_params cfg CITIES ui)"
    "sp_sex (build_search_params_first cfg CITIES ui) = sp_sex (build_search_params cfg CITIES ui)"
    "sp_age_from (build_search_params_first cfg CITIES ui) = sp_age_from (build_search_params cfg CITIES ui)"
    "sp_age_to (build_search_params_first cfg CITIES ui) = sp_age_to (build_search_params cfg CITIES ui)"
    "sp_country (build_search_params_first cfg CITIES ui) = Some 1"
    "sp_country (build_search_params cfg CITIES ui) = None"
    by (simp_all add: build_search_params_first_def build_search_params_def Let_def)
  from rest city show ?thesis by blast
qed

theorem build_search_params_agree_witness:
  "strip (lower str_moskva) = lower str_moskva \<and> replace_yo (lower str_moskva) = lower str_moskva \<and>
   [] \<notin> fst ` set sample_cities \<and>
   sp_city (build_search_params_first default_config sample_cities
      \<lparr> ui_sex = Some 1, ui_age = Some 25, ui_city = Some str_moskva \<rparr>) = Some 1 \<and>
   sp_city (build_search_params default_config sample_cities
      \<lparr> ui_sex = Some 1, ui_age = Some 25, ui_city = Some str_moskva \<rparr>) = Some 1"
proof -
  have h1: "strip (lower str_moskva) = lower str_moskva"
    by (simp add: str_moskva_def lower_def lower_cp_def strip_def is_space_def)
  have h2: "replace_yo (lower str_moskva) = lower str_moskva"
    by (simp add: str_moskva_def lower_def lower_cp_def replace_yo_def yo_def)
  have h3: "[] \<notin> fst ` set sample_cities"
    by (simp add: sample_cities_def str_moskva_def str_orel_def)
  have h4: "\<forall>(name, cid) \<in> set sample_cities. cid \<noteq> 0"
    by (simp add: sample_cities_def)
  have v: "sp_city (build_search_params default_config sample_cities
      \<lparr> ui_sex = Some 1, ui_age = Some 25, ui_city = Some str_moskva \<rparr>) = Some 1"
    by (simp add: build_search_params_def sample_cities_def str_moskva_def str_orel_def
        get_or_def lower_def lower_cp_def Let_def)
  from h1 h2 h3 h4 v
    build_search_params_agree [of default_config sample_cities
      "\<lparr> ui_sex = Some 1, ui_age = Some 25, ui_city = Some str_moskva \<rparr>"]
  show ?thesis by (simp add: get_or_def)
qed

text \<open>
  The two definitions are not equal as claim C10 first states: for a requester from Moskva
  the results differ (in \<open>country\<close>), and for the same city with a leading space they differ
  in \<open>city\<close> as well.
\<close>

theorem build_search_params_differ:
  "build_search_params_first default_config sample_cities
      \<lparr> ui_sex = Some 1, ui_age = Some 25, ui_city = Some str_moskva \<rparr> \<noteq>
   build_search_params default_config sample_cities
      \<lparr> ui_sex = Some 1, ui_age = Some 25, ui_city = Some str_moskva \<rparr> \<and>
   sp_city (build_search_params_first default_config sample_cities
      \<lparr> ui_sex = Some 1, ui_age = Some 25,
        ui_city = Some [32, 1084, 1086, 1089, 1082, 1074, 1072] \<rparr>) \<noteq>
   sp_city (build_search_params default_config sample_cities
      \<lparr> ui_sex = Some 1, ui_age = Some 25,
        ui_city = Some [32, 1084, 1086, 1089, 1082, 1074, 1072] \<rparr>)"
  by (simp add: build_search_params_first_def build_search_params_def sample_cities_def
      str_moskva_def str_orel_def get_or_def lower_def lower_cp_def strip_def is_space_def
      replace_yo_def yo_def ye_def Let_def)

section \<open>Properties of \<open>search_people\<close>\<close>

lemma filter_candidates_eq:
  "filter_candidates cy items =
     map (to_candidate cy) (filter (\<lambda>u. \<not> is_deactivated u \<and> \<not> lacks_photo u) items)"
  by (induction items) auto

lemma length_shuffle_from: "length (shuffle_from rnd i xs) = length xs"
  by (induction rnd i xs rule: shuffle_from.induct) (simp_all add: Let_def)

lemma mset_shuffle_from: "i < length xs \<Longrightarrow> mset (shuffle_from rnd i xs) = mset xs"
proof (induction rnd i xs rule: shuffle_from.induct)
  case (1 rnd xs)
  then show ?case by simp
next
  case (2 rnd i xs)
  define j where "j = rnd (Suc i) mod Suc (Suc i)"
  have "j < Suc (Suc i)" unfolding j_def by simp
  with 2(2) have j: "j < length xs" by linarith
  have "mset (xs[Suc i := xs ! j, j := xs ! Suc i]) = mset xs"
    using 2(2) j by (simp add: mset_swap)
  moreover have "mset (shuffle_from rnd i (xs[Suc i := xs ! j, j := xs ! Suc i])) =
      mset (xs[Suc i := xs ! j, j := xs ! Suc i])"
    using 2(1) [of j] 2(2) by (simp add: j_def)
  ultimately show ?case by (simp add: Let_def j_def)
qed

lemma mset_shuffle: "mset (shuffle rnd xs) = mset xs"
proof (cases xs)
  case Nil
  then show ?thesis by (simp add: shuffle_def)
next
  case (Cons x xs')
  then show ?thesis by (simp add: shuffle_def mset_shuffle_from)
qed

lemma set_shuffle: "set (shuffle rnd xs) = set xs"
  using mset_shuffle [of rnd xs] by (metis set_mset_mset)

text \<open>
  Claim C9. The filtering loop of \<open>search_people\<close> keeps exactly the entries that are not
  deactivated and have a usable photo, in their order, each in normalised form. An entry
  flagged as deactivated is dropped wherever it stands and whatever its other fields are;
  so is an entry whose photo URL is absent or contains \<open>camera\<close>; every other entry
  appears in the output.
\<close>

theorem filter_candidates_spec:
  "filter_candidates cy items =
     map (to_candidate cy) (filter (\<lambda>u. \<not> is_deactivated u \<and> \<not> lacks_photo u) items) \<and>
   (is_deactivated u \<longrightarrow> filter_candidates cy (xs @ u # ys) = filter_candidates cy (xs @ ys)) \<and>
   (lacks_photo u \<longrightarrow> filter_candidates cy (xs @ u # ys) = filter_candidates cy (xs @ ys)) \<and>
   (ru_photo_100 u = None \<longrightarrow> lacks_photo u) \<and>
   (ru_photo_100 u = Some p \<and> contains p str_camera \<longrightarrow> lacks_photo u) \<and>
   (\<not> is_deactivated u \<and> \<not> lacks_photo u \<longrightarrow>
      filter_candidates cy (xs @ u # ys) =
        filter_candidates cy xs @ to_candidate cy u # filter_candidates cy ys)"
  by (simp add: filter_candidates_eq lacks_photo_def)

theorem filter_candidates_spec_witness:
  "is_deactivated (sample_user\<lparr> ru_deactivated := Some str_deleted \<rparr>) \<and>
   filter_candidates 2026 ([] @ sample_user\<lparr> ru_deactivated := Some str_deleted \<rparr> # [sample_user]) =
     filter_candidates 2026 ([] @ [sample_user]) \<and>
   ru_photo_100 (sample_user\<lparr> ru_photo_100 := Some str_camera_url \<rparr>) = Some str_camera_url \<and>
   contains str_camera_url str_camera \<and>
   lacks_photo (sample_user\<lparr> ru_photo_100 := Some str_camera_url \<rparr>) \<and>
   filter_candidates 2026 ([sample_user] @ sample_user\<lparr> ru_photo_100 := Some str_camera_url \<rparr> # []) =
     filter_candidates 2026 ([sample_user] @ []) \<and>
   ru_photo_100 (sample_user\<lparr> ru_photo_100 := None \<rparr>) = None \<and>
   lacks_photo (sample_user\<lparr> ru_photo_100 := None \<rparr>) \<and>
   \<not> is_deactivated sample_user \<and> \<not> lacks_photo sample_user \<and>
   filter_candidates 2026 ([] @ sample_user # []) =
     filter_candidates 2026 [] @ to_candidate 2026 sample_user # filter_candidates 2026 []"
proof -
  have h1: "is_deactivated (sample_user\<lparr> ru_deactivated := Some str_deleted \<rparr>)"
    by (simp add: is_deactivated_def str_deleted_def)
  have h2: "ru_photo_100 (sample_user\<lparr> ru_photo_100 := Some str_camera_url \<rparr>) = Some str_camera_url"
    by simp
  have h3: "contains str_camera_url str_camera"
    by (simp add: str_camera_url_def str_camera_def)
  have h4: "ru_photo_100 (sample_user\<lparr> ru_photo_100 := None \<rparr>) = None"
    by simp
  have h5: "\<not> is_deactivated sample_user"
    by (simp add: is_deactivated_def sample_user_def)
  have h6: "\<not> lacks_photo sample_user"
    by (simp add: lacks_photo_def sample_user_def str_photo_url_def str_camera_def)
  from h1 h2 h3 h4 h5 h6
    filter_candidates_spec [of 2026 "[]" "sample_user\<lparr> ru_deactivated := Some str_deleted \<rparr>"
      "[]" "[sample_user]" str_camera_url]
    filter_candidates_spec [of 2026 "[]" "sample_user\<lparr> ru_photo_100 := Some str_camera_url \<rparr>"
      "[sample_user]" "[]" str_camera_url]
    filter_candidates_spec [of 2026 "[]" "sample_user\<lparr> ru_photo_100 := None \<rparr>" "[]" "[]" "[]"]
    filter_candidates_spec [of 2026 "[]" sample_user "[]" "[]" "[]"]
  show ?thesis by simp
qed

lemma length_search_people: "length (search_people rnd cy cfg CITIES users_search ui) \<le> 50"
  by (simp add: search_people_def split: api_result.splits option.splits)

lemma set_search_people:
  assumes "c \<in> set (search_people rnd cy cfg CITIES users_search ui)"
  shows "\<exists>items u. users_search (build_search_params cfg CITIES ui) = Response (Some items) \<and>
           u \<in> set items \<and> \<not> is_deactivated u \<and> \<not> lacks_photo u \<and> c = to_candidate cy u"
proof (cases "users_search (build_search_params cfg CITIES ui)")
  case (ApiError code)
  with assms show ?thesis by (simp add: search_people_def)
next
  case (Response r)
  show ?thesis
  proof (cases r)
    case None
    with assms Response show ?thesis by (simp add: search_people_def)
  next
    case (Some items)
    with assms Response have "c \<in> set (take 50 (shuffle rnd (filter_candidates cy items)))"
      by (simp add: search_people_def)
    then have "c \<in> set (shuffle rnd (filter_candidates cy items))"
      by (rule in_set_takeD)
    then have "c \<in> set (filter_candidates cy items)"
      by (simp add: set_shuffle)
    then obtain u where "u \<in> set items" "\<not> is_deactivated u" "\<not> lacks_photo u"
        "c = to_candidate cy u"
      by (auto simp: filter_candidates_eq)
    with Response Some show ?thesis by blast
  qed
qed

text \<open>
  Claim C4, as amended. \<open>search_people\<close> returns at most 50 candidates, and each of them is
  the normalised form of a search result that is not deactivated and has a usable photo.
  The operation takes no interaction store, so nothing is said about blacklisted ids.
\<close>

theorem search_people_bound:
  "length (search_people rnd cy cfg CITIES users_search ui) \<le> 50 \<and>
   (\<forall>c \<in> set (search_people rnd cy cfg CITIES users_search ui).
      \<exists>items u. users_search (build_search_params cfg CITIES ui) = Response (Some items) \<and>
        u \<in> set items \<and> \<not> is_deactivated u \<and> \<not> lacks_photo u \<and> c = to_candidate cy u)"
  using length_search_people set_search_people by blast

theorem search_people_bound_witness:
  "length (search_people no_random 2026 default_config sample_cities sample_search
      sample_requester) \<le> 50 \<and>
   search_people no_random 2026 default_config sample_cities sample_search sample_requester =
     [to_candidate 2026 sample_user] \<and>
   sample_search (build_search_params default_config sample_cities sample_requester) =
     Response (Some [sample_user]) \<and>
   \<not> is_deactivated sample_user \<and> \<not> lacks_photo sample_user"
proof -
  have h5: "\<not> is_deactivated sample_user"
    by (simp add: is_deactivated_def sample_user_def)
  have h6: "\<not> lacks_photo sample_user"
    by (simp add: lacks_photo_def sample_user_def str_photo_url_def str_camera_def)
  have v: "search_people no_random 2026 default_config sample_cities sample_search
      sample_requester = [to_candidate 2026 sample_user]"
    using h5 h6 by (simp add: search_people_def sample_search_def shuffle_def)
  from h5 h6 v
    search_people_bound [of no_random 2026 default_config sample_cities sample_search
      sample_requester]
  show ?thesis by (simp add: sample_search_def)
qed

text \<open>
  The exclusion that claim C4 first states does not hold of \<open>search_people\<close>: after user
  12345 has blacklisted candidate 67890, a search that finds 67890 still returns that
  candidate.
\<close>

theorem search_people_returns_blacklisted:
  "get_blacklist (snd (add_to_blacklist 0 sample_db 12345 67890)) 12345 = [67890] \<and>
   map c_id (search_people no_random 2026 default_config sample_cities sample_search
      sample_requester) = [67890]"
proof -
  have h5: "\<not> is_deactivated sample_user"
    by (simp add: is_deactivated_def sample_user_def)
  have h6: "\<not> lacks_photo sample_user"
    by (simp add: lacks_photo_def sample_user_def str_photo_url_def str_camera_def)
  have "search_people no_random 2026 default_config sample_cities sample_search
      sample_requester = [to_candidate 2026 sample_user]"
    using h5 h6 by (simp add: search_people_def sample_search_def shuffle_def)
  moreover have "c_id (to_candidate 2026 sample_user) = 67890"
    by (simp add: to_candidate_def sample_user_def)
  moreover have "get_blacklist (snd (add_to_blacklist 0 sample_db 12345 67890)) 12345 = [67890]"
    by (simp add: get_blacklist_def add_to_blacklist_def sample_db_def in_bigint_def
        has_blacklisted_def)
  ultimately show ?thesis by simp
qed

section \<open>Properties of \<open>get_popular_photos\<close>\<close>

lemma sorted_wrt_desc_sort_key:
  "sorted_wrt (\<lambda>a b. f b \<le> f a) (sort_key (\<lambda>x. - f x) (xs :: 'a list))" for f :: "'a \<Rightarrow> int"
proof -
  have "sorted (map (\<lambda>x. - f x) (sort_key (\<lambda>x. - f x) xs))" by (rule sorted_sort_key)
  then show ?thesis by (simp add: sorted_map)
qed

lemma sorted_wrt_filter': "sorted_wrt R xs \<Longrightarrow> sorted_wrt R (filter P xs)"
  by (rule sorted_wrt_filter)

lemma sorted_wrt_slice_to: "sorted_wrt R xs \<Longrightarrow> sorted_wrt R (slice_to n xs)"
  by (simp add: slice_to_def sorted_wrt_take)

lemma length_slice_to: "0 \<le> n \<Longrightarrow> int (length (slice_to n xs)) \<le> n"
  by (simp add: slice_to_def)

lemma subseq_take: "subseq (take n xs) xs"
  by (rule prefix_imp_subseq) (rule take_is_prefix)

lemma subseq_slice_to: "subseq (slice_to n xs) xs"
  by (simp add: slice_to_def subseq_take)

lemma rank_photos_cases:
  "rank_photos cfg items = slice_to (get_or (cfg_max_photos cfg) 3) (sort_key (\<lambda>x. - popularity x) items) \<or>
   rank_photos cfg items = slice_to (get_or (cfg_max_photos cfg) 3)
     (filter (\<lambda>photo. get_or (cfg_min_photo_likes cfg) 1 \<le> count_of (ph_likes photo))
        (sort_key (\<lambda>x. - popularity x) items))"
  by (simp add: rank_photos_def Let_def)

lemma sorted_rank_photos: "sorted_wrt (\<lambda>a b. popularity b \<le> popularity a) (rank_photos cfg items)"
  using rank_photos_cases [of cfg items]
  by (auto simp: sorted_wrt_slice_to sorted_wrt_filter sorted_wrt_desc_sort_key)

lemma subseq_rank_photos: "subseq (rank_photos cfg items) (sort_key (\<lambda>x. - popularity x) items)"
proof -
  have "subseq (slice_to n (filter P xs)) xs" for n P and xs :: "raw_photo list"
    using subseq_slice_to [of n "filter P xs"] subseq_filter_left [of P xs]
    by (rule subseq_order.trans)
  then show ?thesis
    using rank_photos_cases [of cfg items] by (auto simp: subseq_slice_to)
qed

lemma stable_desc:
  "filter (\<lambda>p. popularity p = k) (sort_key (\<lambda>x. - popularity x) items) =
   filter (\<lambda>p. popularity p = k) items"
proof -
  have "filter (\<lambda>p. - popularity p = - k) (sort_key (\<lambda>x. - popularity x) items) =
        filter (\<lambda>p. - popularity p = - k) items"
    by (rule sort_key_stable)
  then show ?thesis by simp
qed

lemma stable_rank_photos:
  "subseq (filter (\<lambda>p. popularity p = k) (rank_photos cfg items))
     (filter (\<lambda>p. popularity p = k) items)"
proof -
  have "subseq (filter (\<lambda>p. popularity p = k) (rank_photos cfg items))
     (filter (\<lambda>p. popularity p = k) (sort_key (\<lambda>x. - popularity x) items))"
    using subseq_rank_photos by (simp add: subseq_filter)
  then show ?thesis by (simp add: stable_desc)
qed

lemma length_rank_photos:
  "0 \<le> get_or (cfg_max_photos cfg) 3 \<Longrightarrow>
   int (length (rank_photos cfg items)) \<le> get_or (cfg_max_photos cfg) 3"
  using rank_photos_cases [of cfg items] by (auto simp: length_slice_to)

lemma rank_photos_Nil: "rank_photos cfg [] = []"
  by (simp add: rank_photos_def slice_to_def)

lemma length_filter_sort_key:
  "length (filter P (sort_key f xs)) = length (filter P xs)"
  by (simp add: filter_sort)

lemma rank_photos_fallback:
  assumes "items \<noteq> []"
    and "length (filter (\<lambda>photo. get_or (cfg_min_photo_likes cfg) 1 \<le> count_of (ph_likes photo)) items) < 3"
  shows "rank_photos cfg items =
     slice_to (get_or (cfg_max_photos cfg) 3) (sort_key (\<lambda>x. - popularity x) items)"
proof -
  from assms(1) have "sort_key (\<lambda>x. - popularity x) items \<noteq> []"
    by (metis length_sort length_0_conv)
  with assms(2) show ?thesis
    by (simp add: rank_photos_def Let_def length_filter_sort_key)
qed

text \<open>
  Claim C7. The photos returned by the ranking step are ordered by non-increasing score
  \<open>likes + comments\<close>; photos of equal score appear in the order they had in the input; with
  a non-negative \<open>max_photos\<close> (the configuration allows 1 to 10, default 3) at most
  \<open>max_photos\<close> photos are returned; and an empty input gives an empty output.
\<close>

theorem rank_photos_spec:
  "sorted_wrt (\<lambda>a b. popularity b \<le> popularity a) (rank_photos cfg items) \<and>
   subseq (filter (\<lambda>p. popularity p = k) (rank_photos cfg items))
     (filter (\<lambda>p. popularity p = k) items) \<and>
   (0 \<le> get_or (cfg_max_photos cfg) 3 \<longrightarrow>
      int (length (rank_photos cfg items)) \<le> get_or (cfg_max_photos cfg) 3) \<and>
   rank_photos cfg [] = [] \<and>
   get_popular_photos cfg (\<lambda>u. Response (Some items)) user_id = rank_photos cfg items"
  using sorted_rank_photos stable_rank_photos length_rank_photos rank_photos_Nil
  by (simp add: get_popular_photos_def)

theorem rank_photos_spec_witness:
  "0 \<le> get_or (cfg_max_photos default_config) 3 \<and>
   rank_photos default_config
     [plain_photo 1, liked_photo 2 5 1, liked_photo 3 5 1, liked_photo 4 10 0, plain_photo 5] =
     [liked_photo 4 10 0, liked_photo 2 5 1, liked_photo 3 5 1] \<and>
   int (length (rank_photos default_config
     [plain_photo 1, liked_photo 2 5 1, liked_photo 3 5 1, liked_photo 4 10 0, plain_photo 5]))
     \<le> get_or (cfg_max_photos default_config) 3"
proof -
  have h: "0 \<le> get_or (cfg_max_photos default_config) 3"
    by (simp add: default_config_def get_or_def)
  have v: "rank_photos default_config
     [plain_photo 1, liked_photo 2 5 1, liked_photo 3 5 1, liked_photo 4 10 0, plain_photo 5] =
     [liked_photo 4 10 0, liked_photo 2 5 1, liked_photo 3 5 1]"
    by (simp add: rank_photos_def default_config_def get_or_def popularity_def count_of_def
        plain_photo_def liked_photo_def slice_to_def Let_def)
  from h v
    rank_photos_spec [of default_config
      "[plain_photo 1, liked_photo 2 5 1, liked_photo 3 5 1, liked_photo 4 10 0, plain_photo 5]"]
  show ?thesis by simp
qed

lemma slice_to_all: "int (length xs) \<le> n \<Longrightarrow> slice_to n xs = xs"
  by (simp add: slice_to_def)

lemma slice_to_not_Nil: "0 < n \<Longrightarrow> xs \<noteq> [] \<Longrightarrow> slice_to n xs \<noteq> []"
  by (simp add: slice_to_def)

text \<open>
  Claim C8, as amended. When the input is not empty and fewer than 3 photos reach the
  \<open>min_photo_likes\<close> threshold, the ranking step returns the unfiltered score-sorted list
  cut to \<open>max_photos\<close> entries: the whole list when the input has at most \<open>max_photos\<close>
  photos, and never an empty list when \<open>max_photos\<close> is positive.
\<close>

theorem rank_photos_low_engagement:
  "items \<noteq> [] \<and>
   length (filter (\<lambda>photo. get_or (cfg_min_photo_likes cfg) 1 \<le> count_of (ph_likes photo)) items) < 3
   \<longrightarrow>
     rank_photos cfg items =
       slice_to (get_or (cfg_max_photos cfg) 3) (sort_key (\<lambda>x. - popularity x) items) \<and>
     (int (length items) \<le> get_or (cfg_max_photos cfg) 3 \<longrightarrow>
        rank_photos cfg items = sort_key (\<lambda>x. - popularity x) items) \<and>
     (0 < get_or (cfg_max_photos cfg) 3 \<longrightarrow> rank_photos cfg items \<noteq> [])"
proof
  assume a: "items \<noteq> [] \<and>
   length (filter (\<lambda>photo. get_or (cfg_min_photo_likes cfg) 1 \<le> count_of (ph_likes photo)) items) < 3"
  then have eq: "rank_photos cfg items =
       slice_to (get_or (cfg_max_photos cfg) 3) (sort_key (\<lambda>x. - popularity x) items)"
    by (simp add: rank_photos_fallback)
  from a have ne: "sort_key (\<lambda>x. - popularity x) items \<noteq> []"
    by (metis length_sort length_0_conv)
  have "rank_photos cfg items = sort_key (\<lambda>x. - popularity x) items"
    if "int (length items) \<le> get_or (cfg_max_photos cfg) 3"
    using that eq by (simp add: slice_to_all)
  moreover have "rank_photos cfg items \<noteq> []" if "0 < get_or (cfg_max_photos cfg) 3"
    using that eq ne by (simp add: slice_to_not_Nil)
  ultimately show "rank_photos cfg items =
       slice_to (get_or (cfg_max_photos cfg) 3) (sort_key (\<lambda>x. - popularity x) items) \<and>
     (int (length items) \<le> get_or (cfg_max_photos cfg) 3 \<longrightarrow>
        rank_photos cfg items = sort_key (\<lambda>x. - popularity x) items) \<and>
     (0 < get_or (cfg_max_photos cfg) 3 \<longrightarrow> rank_photos cfg items \<noteq> [])"
    using eq by blast
qed

theorem rank_photos_low_engagement_witness:
  "[liked_photo 1 0 2, liked_photo 2 5 1, plain_photo 3] \<noteq> [] \<and>
   length (filter (\<lambda>photo. get_or (cfg_min_photo_likes default_config) 1 \<le> count_of (ph_likes photo))
     [liked_photo 1 0 2, liked_photo 2 5 1, plain_photo 3]) < 3 \<and>
   int (length [liked_photo 1 0 2, liked_photo 2 5 1, plain_photo 3])
     \<le> get_or (cfg_max_photos default_config) 3 \<and>
   0 < get_or (cfg_max_photos default_config) 3 \<and>
   sort_key (\<lambda>x. - popularity x) [liked_photo 1 0 2, liked_photo 2 5 1, plain_photo 3] =
     [liked_photo 2 5 1, liked_photo 1 0 2, plain_photo 3] \<and>
   rank_photos default_config [liked_photo 1 0 2, liked_photo 2 5 1, plain_photo 3] =
     [liked_photo 2 5 1, liked_photo 1 0 2, plain_photo 3]"
proof -
  have h1: "length (filter (\<lambda>photo. get_or (cfg_min_photo_likes default_config) 1 \<le> count_of (ph_likes photo))
     [liked_photo 1 0 2, liked_photo 2 5 1, plain_photo 3]) < 3"
    by (simp add: default_config_def get_or_def count_of_def plain_photo_def liked_photo_def)
  have h2: "int (length [liked_photo 1 0 2, liked_photo 2 5 1, plain_photo 3])
     \<le> get_or (cfg_max_photos default_config) 3"
    "0 < get_or (cfg_max_photos default_config) 3"
    by (simp_all add: default_config_def get_or_def)
  have h3: "sort_key (\<lambda>x. - popularity x) [liked_photo 1 0 2, liked_photo 2 5 1, plain_photo 3] =
     [liked_photo 2 5 1, liked_photo 1 0 2, plain_photo 3]"
    by (simp add: popularity_def count_of_def get_or_def plain_photo_def liked_photo_def)
  have h0: "[liked_photo 1 0 2, liked_photo 2 5 1, plain_photo 3] \<noteq> []"
    by simp
  from h0 h1 h2(1)
    rank_photos_low_engagement [of "[liked_photo 1 0 2, liked_photo 2 5 1, plain_photo 3]"
      default_config]
  have "rank_photos default_config [liked_photo 1 0 2, liked_photo 2 5 1, plain_photo 3] =
     sort_key (\<lambda>x. - popularity x) [liked_photo 1 0 2, liked_photo 2 5 1, plain_photo 3]"
    by blast
  then have v: "rank_photos default_config [liked_photo 1 0 2, liked_photo 2 5 1, plain_photo 3] =
     [liked_photo 2 5 1, liked_photo 1 0 2, plain_photo 3]"
    using h3 by (rule trans)
  from h0 h1 h2 h3 v show ?thesis by blast
qed

text \<open>
  Claim C8 as first stated, that all input photos are returned, fails for four photos
  without likes under the default configuration: three of the four are returned.
\<close>

theorem rank_photos_truncates_fallback:
  "length (filter (\<lambda>photo. get_or (cfg_min_photo_likes default_config) 1 \<le> count_of (ph_likes photo))
     [plain_photo 1, plain_photo 2, plain_photo 3, plain_photo 4]) < 3 \<and>
   sort_key (\<lambda>x. - popularity x) [plain_photo 1, plain_photo 2, plain_photo 3, plain_photo 4] =
     [plain_photo 1, plain_photo 2, plain_photo 3, plain_photo 4] \<and>
   rank_photos default_config [plain_photo 1, plain_photo 2, plain_photo 3, plain_photo 4] =
     [plain_photo 1, plain_photo 2, plain_photo 3]"
  by (simp add: rank_photos_def default_config_def get_or_def popularity_def count_of_def
      plain_photo_def slice_to_def Let_def)

section \<open>Properties of the store\<close>

subsection \<open>Favorites\<close>

lemma varchar_fits: "length s \<le> n \<Longrightarrow> varchar n s = Some s"
  by (simp add: varchar_def)

lemma has_favorite_append:
  "has_favorite (db\<lparr> db_favorites := db_favorites db @ [r] \<rparr>) u c \<longleftrightarrow>
     has_favorite db u c \<or> (fav_user_id r = u \<and> fav_candidate_id r = c)"
  by (auto simp: has_favorite_def list_ex_iff)

lemma add_to_favorites_fresh:
  assumes "db_up db" "user_id \<in> set (db_users db)" "in_bigint user_id" "in_bigint candidate_id"
    and "length first_name \<le> 100" "length last_name \<le> 100"
    and "adaptable first_name" "adaptable last_name"
    and "\<not> has_favorite db user_id candidate_id"
  shows "add_to_favorites now db user_id candidate_id first_name last_name =
     (Inr True, db\<lparr> db_favorites := db_favorites db @
        [\<lparr> fav_user_id = user_id, fav_candidate_id = candidate_id,
           fav_first_name = first_name, fav_last_name = last_name, fav_created_at = now \<rparr>] \<rparr>)"
  using assms by (simp add: add_to_favorites_def varchar_fits)

lemma add_to_favorites_duplicate:
  assumes "has_favorite db user_id candidate_id"
    and "adaptable first_name" "adaptable last_name"
  shows "add_to_favorites now db user_id candidate_id first_name last_name = (Inr False, db)"
  using assms by (simp add: add_to_favorites_def split: option.splits)

lemma add_to_favorites_returns:
  "adaptable first_name \<Longrightarrow> adaptable last_name \<Longrightarrow>
   \<exists>b. fst (add_to_favorites now db user_id candidate_id first_name last_name) = Inr b"
  by (auto simp: add_to_favorites_def split: option.splits)

lemma count_get_favorites:
  "db_up db \<Longrightarrow>
   length (filter (\<lambda>e. fe_candidate_id e = c) (get_favorites db u)) =
   length (filter (\<lambda>r. fav_user_id r = u \<and> fav_candidate_id r = c) (db_favorites db))"
proof -
  assume up: "db_up db"
  have "filter (\<lambda>e. fe_candidate_id e = c) (get_favorites db u) =
      map (\<lambda>r. \<lparr> fe_candidate_id = fav_candidate_id r, fe_first_name = fav_first_name r,
                      fe_last_name = fav_last_name r, fe_created_at = fav_created_at r \<rparr>)
        (filter (\<lambda>r. fav_candidate_id r = c)
           (sort_key (\<lambda>r. - int (fav_created_at r))
              (filter (\<lambda>r. fav_user_id r = u) (db_favorites db))))"
    using up by (simp add: get_favorites_def filter_map comp_def)
  then show ?thesis
    by (simp add: length_filter_sort_key conj_commute)
qed

lemma no_favorite_count:
  "\<not> has_favorite db u c \<Longrightarrow>
   filter (\<lambda>r. fav_user_id r = u \<and> fav_candidate_id r = c) (db_favorites db) = []"
  by (auto simp: has_favorite_def list_ex_iff filter_empty_conv)

text \<open>
  Claim C5, as amended. On a running store, for a registered user, identifiers in the
  \<open>BIGINT\<close> range, names that psycopg2 can adapt (no NUL, no surrogate) of at most 100
  characters, and a pair that is not yet a favorite: \<open>add_to_favorites\<close> returns \<open>True\<close>;
  called again with the same pair and any adaptable names it returns \<open>False\<close> and leaves the
  store as it was; and \<open>get_favorites\<close> then lists the candidate exactly once. Both calls
  return: the duplicate is a result, not an exception.
\<close>

theorem add_to_favorites_twice:
  assumes "db_up db" and "user_id \<in> set (db_users db)"
    and "in_bigint user_id" and "in_bigint candidate_id"
    and "length first_name \<le> 100" and "length last_name \<le> 100"
    and "adaptable first_name" and "adaptable last_name"
    and "adaptable first_name'" and "adaptable last_name'"
    and "\<not> has_favorite db user_id candidate_id"
  shows "fst (add_to_favorites t1 db user_id candidate_id first_name last_name) = Inr True \<and>
     fst (add_to_favorites t2 (snd (add_to_favorites t1 db user_id candidate_id first_name last_name))
            user_id candidate_id first_name' last_name') = Inr False \<and>
     snd (add_to_favorites t2 (snd (add_to_favorites t1 db user_id candidate_id first_name last_name))
            user_id candidate_id first_name' last_name') =
       snd (add_to_favorites t1 db user_id candidate_id first_name last_name) \<and>
     length (filter (\<lambda>e. fe_candidate_id e = candidate_id)
       (get_favorites
          (snd (add_to_favorites t2
             (snd (add_to_favorites t1 db user_id candidate_id first_name last_name))
             user_id candidate_id first_name' last_name')) user_id)) = 1"
proof -
  define row where "row = \<lparr> fav_user_id = user_id, fav_candidate_id = candidate_id,
           fav_first_name = first_name, fav_last_name = last_name, fav_created_at = t1 \<rparr>"
  define db1 where "db1 = db\<lparr> db_favorites := db_favorites db @ [row] \<rparr>"
  have first: "add_to_favorites t1 db user_id candidate_id first_name last_name = (Inr True, db1)"
    using assms by (simp add: add_to_favorites_fresh db1_def row_def)
  have "has_favorite db1 user_id candidate_id"
    by (simp add: db1_def has_favorite_append row_def)
  then have second:
    "add_to_favorites t2 db1 user_id candidate_id first_name' last_name' = (Inr False, db1)"
    using assms(9,10) by (rule add_to_favorites_duplicate)
  have up1: "db_up db1" using assms(1) by (simp add: db1_def)
  have "length (filter (\<lambda>e. fe_candidate_id e = candidate_id) (get_favorites db1 user_id)) =
      length (filter (\<lambda>r. fav_user_id r = user_id \<and> fav_candidate_id r = candidate_id)
        (db_favorites db1))"
    using up1 by (rule count_get_favorites)
  also have "\<dots> = 1"
    using no_favorite_count [OF assms(11)] by (simp add: db1_def row_def)
  finally show ?thesis using first second by simp
qed

theorem add_to_favorites_twice_witness:
  "db_up sample_db \<and> 12345 \<in> set (db_users sample_db) \<and> in_bigint 12345 \<and> in_bigint 67890 \<and>
   length ([] :: ustring) \<le> 100 \<and> adaptable [] \<and> \<not> has_favorite sample_db 12345 67890 \<and>
   fst (add_to_favorites 1 sample_db 12345 67890 [] []) = Inr True \<and>
   fst (add_to_favorites 2 (snd (add_to_favorites 1 sample_db 12345 67890 [] []))
          12345 67890 [] []) = Inr False \<and>
   length (filter (\<lambda>e. fe_candidate_id e = 67890)
     (get_favorites
        (snd (add_to_favorites 2 (snd (add_to_favorites 1 sample_db 12345 67890 [] []))
                12345 67890 [] [])) 12345)) = 1"
proof -
  have h1: "db_up sample_db" "12345 \<in> set (db_users sample_db)"
    by (simp_all add: sample_db_def)
  have h2: "in_bigint 12345" "in_bigint 67890"
    by (simp_all add: in_bigint_def)
  have h3: "length ([] :: ustring) \<le> 100"
    by simp
  have h4: "adaptable []"
    by (simp add: adaptable_def)
  have h5: "\<not> has_favorite sample_db 12345 67890"
    by (simp add: has_favorite_def sample_db_def)
  from add_to_favorites_twice [OF h1 h2 h3 h3 h4 h4 h4 h4 h5, of 1 2] h1 h2 h3 h4 h5
  show ?thesis by blast
qed

text \<open>
  Claim C5 as first stated, for every pair and every name, fails in two ways. When the user
  is not registered, the foreign key rejects the row and the first call already returns
  \<open>False\<close>. When a name contains a NUL character, the first call raises \<open>ValueError\<close>
  instead of returning.
\<close>

theorem add_to_favorites_unregistered:
  "fst (add_to_favorites 1 empty_db 12345 67890 [] []) = Inr False \<and>
   fst (add_to_favorites 1 sample_db 12345 67890 [97, 0, 98] []) = Inl ValueError"
  by (simp add: add_to_favorites_def empty_db_def sample_db_def in_bigint_def varchar_def
      adaptable_def)

subsection \<open>Blacklist\<close>

lemma has_blacklisted_append:
  "has_blacklisted (db\<lparr> db_blacklist := db_blacklist db @ [r] \<rparr>) u c \<longleftrightarrow>
     has_blacklisted db u c \<or> (bl_user_id r = u \<and> bl_candidate_id r = c)"
  by (auto simp: has_blacklisted_def list_ex_iff)

lemma add_to_blacklist_present:
  assumes "db_up db" "in_bigint user_id" "in_bigint candidate_id"
    and "has_blacklisted db user_id candidate_id"
  shows "add_to_blacklist now db user_id candidate_id = (True, db)"
  using assms by (simp add: add_to_blacklist_def)

lemma add_to_blacklist_new:
  assumes "db_up db" "in_bigint user_id" "in_bigint candidate_id"
    and "user_id \<in> set (db_users db)" and "\<not> has_blacklisted db user_id candidate_id"
  shows "add_to_blacklist now db user_id candidate_id =
     (True, db\<lparr> db_blacklist := db_blacklist db @
        [\<lparr> bl_user_id = user_id, bl_candidate_id = candidate_id, bl_created_at = now \<rparr>] \<rparr>)"
  using assms by (simp add: add_to_blacklist_def)

lemma add_to_blacklist_up: "db_up (snd (add_to_blacklist now db u c)) = db_up db"
  by (simp add: add_to_blacklist_def)

lemma add_to_blacklist_unique:
  "blacklist_unique db \<Longrightarrow> blacklist_unique (snd (add_to_blacklist now db u c))"
  by (auto simp: add_to_blacklist_def blacklist_unique_def has_blacklisted_def list_ex_iff)

lemma count_get_blacklist:
  "db_up db \<Longrightarrow>
   count_list (get_blacklist db u) c =
   count_list (map (\<lambda>r. (bl_user_id r, bl_candidate_id r)) (db_blacklist db)) (u, c)"
proof -
  have "count_list (map bl_candidate_id (filter (\<lambda>r. bl_user_id r = u) rows)) c =
      count_list (map (\<lambda>r. (bl_user_id r, bl_candidate_id r)) rows) (u, c)" for rows
    by (induction rows) auto
  then show "db_up db \<Longrightarrow> ?thesis" by (simp add: get_blacklist_def)
qed

lemma count_list_distinct: "distinct xs \<Longrightarrow> x \<in> set xs \<Longrightarrow> count_list xs x = 1"
  by (induction xs) auto

lemma has_blacklisted_iff:
  "has_blacklisted db u c \<longleftrightarrow>
     (u, c) \<in> set (map (\<lambda>r. (bl_user_id r, bl_candidate_id r)) (db_blacklist db))"
  by (auto simp: has_blacklisted_def list_ex_iff)

text \<open>
  Claim C6, as amended. On a running store whose blacklist rows are unique per pair, for a
  registered user and identifiers in the \<open>BIGINT\<close> range: \<open>add_to_blacklist\<close> returns \<open>True\<close>
  on the first and on the second call with the same pair, the second call leaves the store
  as it was, and \<open>get_blacklist\<close> then contains the candidate exactly once.
\<close>

theorem add_to_blacklist_twice:
  assumes "db_up db" and "user_id \<in> set (db_users db)"
    and "in_bigint user_id" and "in_bigint candidate_id"
    and "blacklist_unique db"
  shows "fst (add_to_blacklist t1 db user_id candidate_id) = True \<and>
     fst (add_to_blacklist t2 (snd (add_to_blacklist t1 db user_id candidate_id))
            user_id candidate_id) = True \<and>
     snd (add_to_blacklist t2 (snd (add_to_blacklist t1 db user_id candidate_id))
            user_id candidate_id) = snd (add_to_blacklist t1 db user_id candidate_id) \<and>
     count_list (get_blacklist
       (snd (add_to_blacklist t2 (snd (add_to_blacklist t1 db user_id candidate_id))
               user_id candidate_id)) user_id) candidate_id = 1"
proof -
  define db1 where "db1 = snd (add_to_blacklist t1 db user_id candidate_id)"
  have first: "fst (add_to_blacklist t1 db user_id candidate_id) = True"
    using assms by (simp add: add_to_blacklist_def)
  have present: "has_blacklisted db1 user_id candidate_id"
  proof (cases "has_blacklisted db user_id candidate_id")
    case True
    with assms show ?thesis by (simp add: db1_def add_to_blacklist_present)
  next
    case False
    with assms show ?thesis
      by (simp add: db1_def add_to_blacklist_new has_blacklisted_append)
  qed
  have up1: "db_up db1"
    using assms(1) by (simp add: db1_def add_to_blacklist_up)
  have second: "add_to_blacklist t2 db1 user_id candidate_id = (True, db1)"
    using up1 assms(3,4) present by (rule add_to_blacklist_present)
  have "blacklist_unique db1"
    using assms(5) unfolding db1_def by (rule add_to_blacklist_unique)
  then have "count_list (map (\<lambda>r. (bl_user_id r, bl_candidate_id r)) (db_blacklist db1))
      (user_id, candidate_id) = 1"
    using present unfolding blacklist_unique_def has_blacklisted_iff
    by (rule count_list_distinct)
  then have "count_list (get_blacklist db1 user_id) candidate_id = 1"
    using up1 by (simp add: count_get_blacklist)
  with first second show ?thesis by (simp add: db1_def)
qed

theorem add_to_blacklist_twice_witness:
  "db_up sample_db \<and> 12345 \<in> set (db_users sample_db) \<and> in_bigint 12345 \<and> in_bigint 67890 \<and>
   blacklist_unique sample_db \<and>
   fst (add_to_blacklist 1 sample_db 12345 67890) = True \<and>
   fst (add_to_blacklist 2 (snd (add_to_blacklist 1 sample_db 12345 67890)) 12345 67890) = True \<and>
   snd (add_to_blacklist 2 (snd (add_to_blacklist 1 sample_db 12345 67890)) 12345 67890) =
     snd (add_to_blacklist 1 sample_db 12345 67890) \<and>
   count_list (get_blacklist
     (snd (add_to_blacklist 2 (snd (add_to_blacklist 1 sample_db 12345 67890)) 12345 67890))
     12345) 67890 = 1"
proof -
  have h1: "db_up sample_db" "12345 \<in> set (db_users sample_db)"
    by (simp_all add: sample_db_def)
  have h2: "in_bigint 12345" "in_bigint 67890"
    by (simp_all add: in_bigint_def)
  have h3: "blacklist_unique sample_db"
    by (simp add: blacklist_unique_def sample_db_def)
  from add_to_blacklist_twice [OF h1 h2 h3, of 1 2] h1 h2 h3
  show ?thesis by blast
qed

text \<open>
  Claim C6 as first stated, for every pair, fails when the user is not registered:
  \<open>ON CONFLICT DO NOTHING\<close> does not cover the foreign key, and the call returns \<open>False\<close>.
\<close>

theorem add_to_blacklist_unregistered:
  "fst (add_to_blacklist 1 empty_db 12345 67890) = False"
  by (simp add: add_to_blacklist_def empty_db_def in_bigint_def has_blacklisted_def)

end
